theory Spec2Isabelle
  imports Main
begin

section \<open>ShortLink: a shallow embedding of app/main.py and app/models.py\<close>

text \<open>
  The request handlers of \<^verbatim>\<open>app/main.py\<close> are modelled as functions from the
  database state (and the values a request reads from its environment: the clock, the
  random generator, the primary key the engine assigns) to a result and the database
  state after the request. An exception the handler raises is the \<open>Inl\<close> branch of the
  result; the rows of a table are a list in insertion order.
\<close>

subsection \<open>Data model (app/models.py)\<close>

text \<open>
  A naive UTC \<^verbatim>\<open>datetime\<close> is the number of microseconds since the epoch, and
  \<^verbatim>\<open>timedelta(days=n)\<close> the corresponding number of microseconds.
\<close>

type_synonym datetime = int

definition timedelta_days :: "int \<Rightarrow> int" where
  "timedelta_days n = n * 86400000000"

record User =
  id_user :: int
  email :: string
  hashed_password :: string

text \<open>
  \<^verbatim>\<open>created_at\<close> and \<^verbatim>\<open>click_count\<close> carry column defaults
  (\<^verbatim>\<open>datetime.utcnow\<close> and \<^verbatim>\<open>0\<close>), which the only insert of the program
  relies on, so they are never NULL; the three nullable columns are options.
\<close>

record ShortenedLink =
  id_link :: int
  original_url :: string
  short_code :: string
  created_at :: datetime
  expires_at :: "datetime option"
  click_count :: int
  last_used_at :: "datetime option"
  user_id :: "int option"

record database =
  users :: "User list"
  shortened_links :: "ShortenedLink list"

subsection \<open>Exceptions and responses\<close>

datatype exn =
  HTTPException int string
  | AttributeError
  | NameError string
  | MultipleResultsFound
  | IntegrityError
  | IntegerOutOfRange
  | TypeError
  | ValueError

datatype response =
  RedirectResponse string
  | ShortenResponse string string
  | OriginalUrlResponse string
  | StatsResponse string datetime int "datetime option"
  | MyLinksResponse "(string \<times> string \<times> int) list"
  | MessageResponse string
  | ShortUrlResponse string

type_synonym outcome = "(exn + response) \<times> database"

subsection \<open>Python and SQLAlchemy primitives\<close>

definition ascii_lowercase :: string where
  "ascii_lowercase = ''abcdefghijklmnopqrstuvwxyz''"

definition ascii_uppercase :: string where
  "ascii_uppercase = ''ABCDEFGHIJKLMNOPQRSTUVWXYZ''"

definition ascii_letters :: string where
  "ascii_letters = ascii_lowercase @ ascii_uppercase"

definition digits :: string where
  "digits = ''0123456789''"

text \<open>
  \<^verbatim>\<open>random.choices(population, k=k)\<close> is
  \<^verbatim>\<open>[population[floor(random() * n)] for _ in range(k)]\<close>. The random generator is
  the sequence \<open>rnd\<close> of the indices \<^verbatim>\<open>floor(random() * n)\<close> it produces, each of
  which lies in \<open>[0, n)\<close>.
\<close>

definition choices :: "(nat \<Rightarrow> nat) \<Rightarrow> 'a list \<Rightarrow> nat \<Rightarrow> 'a list" where
  "choices rnd population k = map (\<lambda>i. population ! rnd i) [0..<k]"

text \<open>\<^verbatim>\<open>s.partition(" ")\<close>: the text before the first space, the separator, the rest.\<close>

definition partition_space :: "string \<Rightarrow> string \<times> string \<times> string" where
  "partition_space s =
     (case dropWhile (\<lambda>c. c \<noteq> CHR '' '') s of
        [] \<Rightarrow> (s, [], [])
      | _ # after \<Rightarrow> (takeWhile (\<lambda>c. c \<noteq> CHR '' '') s, '' '', after))"

text \<open>
  \<^verbatim>\<open>s.lower()\<close> on the ASCII range; the result is only ever compared with
  \<^verbatim>\<open>"bearer"\<close>, whose letters no character outside that range lowers to.
\<close>

definition lower_char :: "char \<Rightarrow> char" where
  "lower_char c =
     (case map_of (zip ascii_uppercase ascii_lowercase) c of
        None \<Rightarrow> c
      | Some l \<Rightarrow> l)"

definition lower :: "string \<Rightarrow> string" where
  "lower s = map lower_char s"

text \<open>\<^verbatim>\<open>s.rstrip("/")\<close>.\<close>

definition rstrip_slash :: "string \<Rightarrow> string" where
  "rstrip_slash s = rev (dropWhile (\<lambda>c. c = CHR ''/'') (rev s))"

text \<open>The three ways the handlers read a query result.\<close>

definition scalar_one_or_none :: "'a list \<Rightarrow> exn + 'a option" where
  "scalar_one_or_none rows =
     (case rows of
        [] \<Rightarrow> Inr None
      | [r] \<Rightarrow> Inr (Some r)
      | _ \<Rightarrow> Inl MultipleResultsFound)"

definition scalar :: "'a list \<Rightarrow> 'a option" where
  "scalar rows = (case rows of [] \<Rightarrow> None | r # _ \<Rightarrow> Some r)"

definition select_by_code :: "database \<Rightarrow> string \<Rightarrow> ShortenedLink list" where
  "select_by_code db code = filter (\<lambda>r. short_code r = code) (shortened_links db)"

definition select_user_by_id :: "database \<Rightarrow> int \<Rightarrow> User list" where
  "select_user_by_id db i = filter (\<lambda>u. id_user u = i) (users db)"

text \<open>
  Committing a modified ORM object issues \<^verbatim>\<open>UPDATE ... SET <changed columns> WHERE id = ?\<close>;
  deleting one issues \<^verbatim>\<open>DELETE ... WHERE id = ?\<close>.
\<close>

definition update_where_id ::
  "int \<Rightarrow> (ShortenedLink \<Rightarrow> ShortenedLink) \<Rightarrow> database \<Rightarrow> database" where
  "update_where_id i f db =
     db\<lparr>shortened_links := map (\<lambda>r. if id_link r = i then f r else r) (shortened_links db)\<rparr>"

definition delete_where_id :: "int \<Rightarrow> database \<Rightarrow> database" where
  "delete_where_id i db =
     db\<lparr>shortened_links := filter (\<lambda>r. id_link r \<noteq> i) (shortened_links db)\<rparr>"

subsection \<open>Authentication (app/main.py, lines 20 and 77 to 118)\<close>

record HTTPAuthorizationCredentials =
  scheme :: string
  credentials :: string

text \<open>Of a request the handlers read the Authorization header and the base URL.\<close>

record Request =
  authorization :: "string option"
  base_url :: string

text \<open>
  \<^verbatim>\<open>decode_access_token\<close> lives in \<^verbatim>\<open>app/auth.py\<close>, which is not part of the
  sources at hand, so it is a parameter \<open>decode\<close> of every function that calls it. The
  code observes two things of the payload it returns: whether it is truthy
  (\<^verbatim>\<open>if not payload\<close>) and the value of \<^verbatim>\<open>int(payload.get("sub"))\<close>, which is an
  integer, or one of the two exceptions \<^verbatim>\<open>int\<close> raises.
\<close>

datatype int_error = IntTypeError | IntValueError

fun exn_of_int_error :: "int_error \<Rightarrow> exn" where
  "exn_of_int_error IntTypeError = TypeError"
| "exn_of_int_error IntValueError = ValueError"

datatype payload = Payload (truthy: bool) (int_sub: "int_error + int")

type_synonym decoder = "string \<Rightarrow> payload option"

text \<open>
  \<^verbatim>\<open>security = HTTPBearer(auto_error=False)\<close>: FastAPI's bearer scheme returns
  \<^verbatim>\<open>None\<close>, instead of raising, when the header is missing, has no scheme or no
  credentials, or names another scheme.
\<close>

definition security :: "Request \<Rightarrow> HTTPAuthorizationCredentials option" where
  "security request =
     (case authorization request of
        None \<Rightarrow> None
      | Some header \<Rightarrow>
          (case partition_space header of
             (sch, _, param) \<Rightarrow>
               if header = [] \<or> sch = [] \<or> param = [] then None
               else if lower sch \<noteq> ''bearer'' then None
               else Some \<lparr>scheme = sch, credentials = param\<rparr>))"

definition get_current_user ::
  "decoder \<Rightarrow> HTTPAuthorizationCredentials option \<Rightarrow> database \<Rightarrow> exn + User" where
  "get_current_user decode creds db =
     (case creds of
        None \<Rightarrow> Inl AttributeError
      | Some c \<Rightarrow>
          (case decode (credentials c) of
             None \<Rightarrow> Inl (HTTPException 401 ''Invalid token'')
           | Some p \<Rightarrow>
               if \<not> truthy p then Inl (HTTPException 401 ''Invalid token'')
               else
                 (case int_sub p of
                    Inl e \<Rightarrow> Inl (exn_of_int_error e)
                  | Inr uid \<Rightarrow>
                      (case scalar_one_or_none (select_user_by_id db uid) of
                         Inl e \<Rightarrow> Inl e
                       | Inr None \<Rightarrow> Inl (HTTPException 401 ''User not found'')
                       | Inr (Some user) \<Rightarrow> Inr user))))"

definition get_current_user_optional ::
  "decoder \<Rightarrow> Request \<Rightarrow> database \<Rightarrow> exn + User option" where
  "get_current_user_optional decode request db =
     (case authorization request of
        None \<Rightarrow> Inr None
      | Some auth_header \<Rightarrow>
          if auth_header = [] then Inr None
          else
            (case partition_space auth_header of
               (sch, _, token) \<Rightarrow>
                 if lower sch \<noteq> ''bearer'' \<or> token = [] then Inr None
                 else
                   (case decode token of
                      None \<Rightarrow> Inr None
                    | Some p \<Rightarrow>
                        if \<not> truthy p then Inr None
                        else
                          (case int_sub p of
                             Inl e \<Rightarrow> Inl (exn_of_int_error e)
                           | Inr uid \<Rightarrow> scalar_one_or_none (select_user_by_id db uid)))))"

subsection \<open>Registration (lines 52 to 66)\<close>

record RegisterRequest =
  username :: string
  password :: string

text \<open>
  \<^verbatim>\<open>hash_password\<close> is another function of \<^verbatim>\<open>app/auth.py\<close> and a parameter here,
  like the primary key \<open>new_id\<close> the engine assigns. The \<^verbatim>\<open>email\<close> column is UNIQUE:
  committing a second user under a stored login raises \<^verbatim>\<open>IntegrityError\<close>.
\<close>

definition register ::
  "(string \<Rightarrow> string) \<Rightarrow> int \<Rightarrow> RegisterRequest \<Rightarrow> database \<Rightarrow> outcome" where
  "register hash_password new_id data db =
     (let hashed = hash_password (password data);
          user = \<lparr>id_user = new_id, email = username data, hashed_password = hashed\<rparr>
      in if username data \<in> email ` set (users db) then (Inl IntegrityError, db)
         else (Inr (MessageResponse ''User registered successfully''),
               db\<lparr>users := users db @ [user]\<rparr>))"

subsection \<open>Code generation and link creation (lines 92 to 148)\<close>

definition generate_short_code :: "(nat \<Rightarrow> nat) \<Rightarrow> nat \<Rightarrow> string" where
  "generate_short_code rnd length_k = choices rnd (ascii_letters @ digits) length_k"

record ShortenLinkRequest =
  req_original_url :: string
  custom_alias :: "string option"
  req_expires_at :: "datetime option"

text \<open>
  \<^verbatim>\<open>request_data.custom_alias or generate_short_code()\<close>: an alias that is
  \<^verbatim>\<open>None\<close> or the empty string is falsy, and the generator then runs with its
  default length 6.
\<close>

definition choose_short_code :: "(nat \<Rightarrow> nat) \<Rightarrow> ShortenLinkRequest \<Rightarrow> string" where
  "choose_short_code rnd request_data =
     (case custom_alias request_data of
        None \<Rightarrow> generate_short_code rnd 6
      | Some a \<Rightarrow> if a = [] then generate_short_code rnd 6 else a)"

text \<open>
  The handler takes, besides the request, what it reads from its environment: the random
  generator \<open>rnd\<close>, the clock reading \<open>now\<close> that becomes \<^verbatim>\<open>created_at\<close>, and the
  primary key \<open>new_id\<close> the database engine assigns to the inserted row.
\<close>

definition shorten_link ::
  "decoder \<Rightarrow> (nat \<Rightarrow> nat) \<Rightarrow> datetime \<Rightarrow> int \<Rightarrow> ShortenLinkRequest \<Rightarrow> Request \<Rightarrow> database
     \<Rightarrow> outcome" where
  "shorten_link decode rnd now new_id request_data request db =
     (case get_current_user_optional decode request db of
        Inl e \<Rightarrow> (Inl e, db)
      | Inr current_user \<Rightarrow>
          (let code = choose_short_code rnd request_data in
           (case scalar (select_by_code db code) of
              Some _ \<Rightarrow> (Inl (HTTPException 400 ''Alias is already taken''), db)
            | None \<Rightarrow>
                (let new_link =
                       \<lparr>id_link = new_id,
                        original_url = req_original_url request_data,
                        short_code = code,
                        created_at = now,
                        expires_at = req_expires_at request_data,
                        click_count = 0,
                        last_used_at = None,
                        user_id = map_option id_user current_user\<rparr>
                 in (Inr (ShortenResponse (base_url request @ code)
                            (case current_user of
                               None \<Rightarrow> ''anonymous''
                             | Some u \<Rightarrow> email u)),
                     db\<lparr>shortened_links := shortened_links db @ [new_link]\<rparr>)))))"

subsection \<open>Resolution and lookup (lines 152 to 171)\<close>

text \<open>
  \<^verbatim>\<open>redirect_to_original_url\<close> reads the clock twice: \<open>now\<close> for the expiry check
  and \<open>now'\<close> for the new \<^verbatim>\<open>last_used_at\<close>.

  \<^verbatim>\<open>click_count\<close> is an \<^verbatim>\<open>Integer\<close> column, and Python's \<^verbatim>\<open>link.click_count += 1\<close>
  is unbounded: when the incremented count exceeds the largest value \<open>max_integer\<close>
  the column stores, the commit raises the driver's out-of-range error (here
  \<open>IntegerOutOfRange\<close>), the transaction is rolled back and no redirect is returned.
  The engine, and with it the bound (\<open>2 ^ 31 - 1\<close> on PostgreSQL, \<open>2 ^ 63 - 1\<close> on
  SQLite), is configured in \<^verbatim>\<open>app/database.py\<close>, which is not part of the sources at
  hand, so \<open>max_integer\<close> is a parameter.
\<close>

definition is_expired :: "ShortenedLink \<Rightarrow> datetime \<Rightarrow> bool" where
  "is_expired link now = (case expires_at link of None \<Rightarrow> False | Some e \<Rightarrow> e < now)"

definition redirect_to_original_url ::
  "int \<Rightarrow> datetime \<Rightarrow> datetime \<Rightarrow> string \<Rightarrow> database \<Rightarrow> outcome" where
  "redirect_to_original_url max_integer now now' code db =
     (case scalar_one_or_none (select_by_code db code) of
        Inl e \<Rightarrow> (Inl e, db)
      | Inr None \<Rightarrow> (Inl (HTTPException 404 ''Short URL not found''), db)
      | Inr (Some link) \<Rightarrow>
          if is_expired link now then (Inl (HTTPException 410 ''Link has expired''), db)
          else if max_integer < click_count link + 1 then (Inl IntegerOutOfRange, db)
          else
            (Inr (RedirectResponse (original_url link)),
             update_where_id (id_link link)
               (\<lambda>r. r\<lparr>click_count := click_count link + 1, last_used_at := Some now'\<rparr>) db))"

definition get_original_url :: "string \<Rightarrow> database \<Rightarrow> outcome" where
  "get_original_url code db =
     (case scalar_one_or_none (select_by_code db code) of
        Inl e \<Rightarrow> (Inl e, db)
      | Inr None \<Rightarrow> (Inl (HTTPException 404 ''Short URL not found''), db)
      | Inr (Some link) \<Rightarrow> (Inr (OriginalUrlResponse (original_url link)), db))"

subsection \<open>Owner-only endpoints (lines 173 to 235)\<close>

text \<open>
  The guard \<^verbatim>\<open>not link or link.user_id != current_user.id\<close> of the three handlers
  below is the \<open>None\<close> case and the test on \<^verbatim>\<open>user_id\<close> of the \<open>Some\<close> case; a NULL
  \<^verbatim>\<open>user_id\<close> differs from every user's id.
\<close>

definition get_link_stats :: "decoder \<Rightarrow> string \<Rightarrow> Request \<Rightarrow> database \<Rightarrow> outcome" where
  "get_link_stats decode code request db =
     (case get_current_user decode (security request) db of
        Inl e \<Rightarrow> (Inl e, db)
      | Inr current_user \<Rightarrow>
          (case scalar_one_or_none (select_by_code db code) of
             Inl e \<Rightarrow> (Inl e, db)
           | Inr None \<Rightarrow> (Inl (HTTPException 403 ''Access denied''), db)
           | Inr (Some link) \<Rightarrow>
               if user_id link \<noteq> Some (id_user current_user)
               then (Inl (HTTPException 403 ''Access denied''), db)
               else
                 (Inr (StatsResponse (original_url link) (created_at link) (click_count link)
                         (last_used_at link)), db)))"

definition get_my_links :: "decoder \<Rightarrow> Request \<Rightarrow> database \<Rightarrow> outcome" where
  "get_my_links decode request db =
     (case get_current_user decode (security request) db of
        Inl e \<Rightarrow> (Inl e, db)
      | Inr current_user \<Rightarrow>
          (Inr (MyLinksResponse
                  (map (\<lambda>link. (short_code link, original_url link, click_count link))
                     (filter (\<lambda>r. user_id r = Some (id_user current_user))
                        (shortened_links db)))), db))"

definition delete_short_link :: "decoder \<Rightarrow> string \<Rightarrow> Request \<Rightarrow> database \<Rightarrow> outcome" where
  "delete_short_link decode code request db =
     (case get_current_user decode (security request) db of
        Inl e \<Rightarrow> (Inl e, db)
      | Inr current_user \<Rightarrow>
          (case scalar_one_or_none (select_by_code db code) of
             Inl e \<Rightarrow> (Inl e, db)
           | Inr None \<Rightarrow> (Inl (HTTPException 403 ''Access denied''), db)
           | Inr (Some link) \<Rightarrow>
               if user_id link \<noteq> Some (id_user current_user)
               then (Inl (HTTPException 403 ''Access denied''), db)
               else
                 (Inr (MessageResponse (''Short URL '' @ [CHR 0x27] @ code @ [CHR 0x27]
                         @ '' deleted'')),
                  delete_where_id (id_link link) db)))"

definition update_short_link ::
  "decoder \<Rightarrow> string \<Rightarrow> string \<Rightarrow> Request \<Rightarrow> database \<Rightarrow> outcome" where
  "update_short_link decode code new_original_url request db =
     (case get_current_user decode (security request) db of
        Inl e \<Rightarrow> (Inl e, db)
      | Inr current_user \<Rightarrow>
          (case scalar_one_or_none (select_by_code db code) of
             Inl e \<Rightarrow> (Inl e, db)
           | Inr None \<Rightarrow> (Inl (HTTPException 403 ''Access denied''), db)
           | Inr (Some link) \<Rightarrow>
               if user_id link \<noteq> Some (id_user current_user)
               then (Inl (HTTPException 403 ''Access denied''), db)
               else
                 (Inr (ShortUrlResponse (rstrip_slash (base_url request) @ ''/'' @ code)),
                  update_where_id (id_link link)
                    (\<lambda>r. r\<lparr>original_url := new_original_url\<rparr>) db)))"

subsection \<open>Retention sweeper (lines 21 and 238 to 249)\<close>

text \<open>
  The integer constants bound at module level. The sweeper reads the name
  \<^verbatim>\<open>N_DAYS_INACTIVE\<close>; a name that is bound nowhere raises \<^verbatim>\<open>NameError\<close>.
\<close>

definition module_globals :: "(string \<times> int) list" where
  "module_globals = [(''INACTIVITY_DAYS_LIMIT'', 7)]"

definition load_global :: "(string \<times> int) list \<Rightarrow> string \<Rightarrow> exn + int" where
  "load_global globals name =
     (case map_of globals name of None \<Rightarrow> Inl (NameError name) | Some v \<Rightarrow> Inr v)"

text \<open>
  \<^verbatim>\<open>DELETE ... WHERE last_used_at < threshold\<close>: a NULL \<^verbatim>\<open>last_used_at\<close> does not
  satisfy the comparison, so the row stays.
\<close>

definition delete_where_last_used_before :: "datetime \<Rightarrow> database \<Rightarrow> database" where
  "delete_where_last_used_before threshold db =
     db\<lparr>shortened_links :=
          filter (\<lambda>r. case last_used_at r of None \<Rightarrow> True | Some t \<Rightarrow> \<not> t < threshold)
            (shortened_links db)\<rparr>"

text \<open>One pass of the loop body after the sleep, at clock reading \<open>now\<close>.\<close>

definition cleanup_cycle :: "(string \<times> int) list \<Rightarrow> datetime \<Rightarrow> database \<Rightarrow> (exn + unit) \<times> database" where
  "cleanup_cycle globals now db =
     (case load_global globals ''N_DAYS_INACTIVE'' of
        Inl e \<Rightarrow> (Inl e, db)
      | Inr n \<Rightarrow> (Inr (), delete_where_last_used_before (now - timedelta_days n) db))"

text \<open>
  The \<^verbatim>\<open>while True\<close> loop, over the clock readings of its successive wake-ups: an
  exception in a cycle leaves the loop and ends the task.
\<close>

fun cleanup_old_links_task ::
  "(string \<times> int) list \<Rightarrow> datetime list \<Rightarrow> database \<Rightarrow> exn option \<times> database" where
  "cleanup_old_links_task globals [] db = (None, db)"
| "cleanup_old_links_task globals (now # wakeups) db =
     (case cleanup_cycle globals now db of
        (Inl e, db') \<Rightarrow> (Some e, db')
      | (Inr _, db') \<Rightarrow> cleanup_old_links_task globals wakeups db')"

subsection \<open>Histories of requests\<close>

text \<open>
  A history is the sequence of requests the service has served, starting from an empty
  link table. The clock only moves forward: every reading of \<^verbatim>\<open>datetime.utcnow()\<close>
  is given as the (natural) number of microseconds elapsed since the reading before it.
\<close>

datatype call =
  CallRegister "string \<Rightarrow> string" int RegisterRequest
  | CallShorten nat "nat \<Rightarrow> nat" int ShortenLinkRequest Request
  | CallRedirect nat nat string
  | CallLookup string
  | CallStats string Request
  | CallMyLinks Request
  | CallDelete string Request
  | CallUpdate string string Request
  | CallSweep nat

record world =
  world_db :: database
  world_clock :: datetime

fun serve :: "decoder \<Rightarrow> int \<Rightarrow> world \<Rightarrow> call \<Rightarrow> world" where
  "serve decode max_integer w (CallRegister hash_password new_id data) =
     w\<lparr>world_db := snd (register hash_password new_id data (world_db w))\<rparr>"
| "serve decode max_integer w (CallShorten d rnd new_id request_data request) =
     \<lparr>world_db = snd (shorten_link decode rnd (world_clock w + int d) new_id request_data
                        request (world_db w)),
      world_clock = world_clock w + int d\<rparr>"
| "serve decode max_integer w (CallRedirect d d' code) =
     \<lparr>world_db = snd (redirect_to_original_url max_integer (world_clock w + int d)
                        (world_clock w + int d + int d') code (world_db w)),
      world_clock = world_clock w + int d + int d'\<rparr>"
| "serve decode max_integer w (CallLookup code) =
     w\<lparr>world_db := snd (get_original_url code (world_db w))\<rparr>"
| "serve decode max_integer w (CallStats code request) =
     w\<lparr>world_db := snd (get_link_stats decode code request (world_db w))\<rparr>"
| "serve decode max_integer w (CallMyLinks request) =
     w\<lparr>world_db := snd (get_my_links decode request (world_db w))\<rparr>"
| "serve decode max_integer w (CallDelete code request) =
     w\<lparr>world_db := snd (delete_short_link decode code request (world_db w))\<rparr>"
| "serve decode max_integer w (CallUpdate code new_original_url request) =
     w\<lparr>world_db := snd (update_short_link decode code new_original_url request (world_db w))\<rparr>"
| "serve decode max_integer w (CallSweep d) =
     \<lparr>world_db = snd (cleanup_cycle module_globals (world_clock w + int d) (world_db w)),
      world_clock = world_clock w + int d\<rparr>"

definition history ::
  "decoder \<Rightarrow> int \<Rightarrow> User list \<Rightarrow> datetime \<Rightarrow> call list \<Rightarrow> world" where
  "history decode max_integer registered t0 calls =
     foldl (serve decode max_integer)
       \<lparr>world_db = \<lparr>users = registered, shortened_links = []\<rparr>, world_clock = t0\<rparr> calls"

text \<open>No stored \<^verbatim>\<open>last_used_at\<close> lies after the time \<open>t\<close>.\<close>

definition used_by :: "datetime \<Rightarrow> database \<Rightarrow> bool" where
  "used_by t db =
     list_all (\<lambda>r. case last_used_at r of None \<Rightarrow> True | Some t' \<Rightarrow> t' \<le> t)
       (shortened_links db)"

text \<open>The columns of a link other than \<^verbatim>\<open>original_url\<close>.\<close>

definition preserved_fields ::
  "ShortenedLink \<Rightarrow> int \<times> string \<times> datetime \<times> datetime option \<times> int \<times> datetime option \<times> int option" where
  "preserved_fields r =
     (id_link r, short_code r, created_at r, expires_at r, click_count r, last_used_at r, user_id r)"

subsection \<open>Sample data\<close>

text \<open>
  Two users, a decoder that accepts one token for each of them, and three links: one of
  the first user that expired at time 2000, one anonymous link under the code the
  generator produces when every draw is 0, and one of the first user last used at time
  \<open>10 ^ 12\<close>.
\<close>

definition alice :: User where
  "alice = \<lparr>id_user = 1, email = ''alice'', hashed_password = ''h1''\<rparr>"

definition bob :: User where
  "bob = \<lparr>id_user = 2, email = ''bob'', hashed_password = ''h2''\<rparr>"

definition sample_decode :: decoder where
  "sample_decode token =
     (if token = ''tok1'' then Some (Payload True (Inr 1))
      else if token = ''tok2'' then Some (Payload True (Inr 2))
      else None)"

definition zero_draws :: "nat \<Rightarrow> nat" where
  "zero_draws i = 0"

definition link_abc :: ShortenedLink where
  "link_abc =
     \<lparr>id_link = 1, original_url = ''https://example.com'', short_code = ''abc'',
      created_at = 1000, expires_at = Some 2000, click_count = 3, last_used_at = Some 1500,
      user_id = Some 1\<rparr>"

definition link_gen :: ShortenedLink where
  "link_gen =
     \<lparr>id_link = 2, original_url = ''https://example.org'', short_code = ''aaaaaa'',
      created_at = 1000, expires_at = None, click_count = 0, last_used_at = None,
      user_id = None\<rparr>"

definition link_old :: ShortenedLink where
  "link_old =
     \<lparr>id_link = 3, original_url = ''https://example.net'', short_code = ''old'',
      created_at = 1000, expires_at = None, click_count = 1,
      last_used_at = Some 1000000000000, user_id = Some 1\<rparr>"

definition link_fresh :: ShortenedLink where
  "link_fresh =
     \<lparr>id_link = 4, original_url = ''https://example.com/long'', short_code = ''aaaaaa'',
      created_at = 5000, expires_at = None, click_count = 0, last_used_at = None,
      user_id = Some 1\<rparr>"

definition sample_db :: database where
  "sample_db = \<lparr>users = [alice, bob], shortened_links = [link_abc, link_gen, link_old]\<rparr>"

definition sample_db_without_abc :: database where
  "sample_db_without_abc = \<lparr>users = [alice, bob], shortened_links = [link_gen, link_old]\<rparr>"

definition sample_db_old :: database where
  "sample_db_old = \<lparr>users = [alice, bob], shortened_links = [link_old]\<rparr>"

definition sample_db_created :: database where
  "sample_db_created = \<lparr>users = [alice, bob], shortened_links = [link_old, link_fresh]\<rparr>"

definition anonymous_request :: Request where
  "anonymous_request = \<lparr>authorization = None, base_url = ''http://short.test/''\<rparr>"

definition alice_request :: Request where
  "alice_request = \<lparr>authorization = Some ''Bearer tok1'', base_url = ''http://short.test/''\<rparr>"

definition bob_request :: Request where
  "bob_request = \<lparr>authorization = Some ''Bearer tok2'', base_url = ''http://short.test/''\<rparr>"

definition plain_request :: ShortenLinkRequest where
  "plain_request =
     \<lparr>req_original_url = ''https://example.com/long'', custom_alias = None,
      req_expires_at = None\<rparr>"

definition alias_request :: ShortenLinkRequest where
  "alias_request =
     \<lparr>req_original_url = ''https://example.com/long'', custom_alias = Some ''abc'',
      req_expires_at = None\<rparr>"

text \<open>
  A history of two requests on an engine with 32-bit integers: the first user creates
  the alias \<^verbatim>\<open>abc\<close>, to expire at time 5000, five microseconds after time 1000, and the
  link is resolved once, the clock reading 1015 and then 1016. This leaves the row
  \<open>link_used\<close>. The row \<open>link_full\<close> is a link whose counter has reached the bound.
\<close>

definition sample_max_integer :: int where
  "sample_max_integer = 2147483647"

definition expiring_request :: ShortenLinkRequest where
  "expiring_request =
     \<lparr>req_original_url = ''https://example.com/long'', custom_alias = Some ''abc'',
      req_expires_at = Some 5000\<rparr>"

definition sample_calls :: "call list" where
  "sample_calls =
     [CallShorten 5 zero_draws 1 expiring_request alice_request, CallRedirect 10 1 ''abc'']"

definition link_used :: ShortenedLink where
  "link_used =
     \<lparr>id_link = 1, original_url = ''https://example.com/long'', short_code = ''abc'',
      created_at = 1005, expires_at = Some 5000, click_count = 1, last_used_at = Some 1016,
      user_id = Some 1\<rparr>"

definition link_full :: ShortenedLink where
  "link_full =
     \<lparr>id_link = 5, original_url = ''https://example.com/busy'', short_code = ''busy'',
      created_at = 1000, expires_at = None, click_count = 2147483647,
      last_used_at = Some 1500, user_id = None\<rparr>"

definition sample_db_full :: database where
  "sample_db_full = \<lparr>users = [alice, bob], shortened_links = [link_full]\<rparr>"

section \<open>Properties\<close>

subsection \<open>Queries and updates\<close>

lemma select_by_code_empty_iff:
  "select_by_code db code = [] \<longleftrightarrow> code \<notin> short_code ` set (shortened_links db)"
  by (auto simp: select_by_code_def filter_empty_conv)

lemma select_by_code_subset:
  "link \<in> set (select_by_code db code) \<Longrightarrow> link \<in> set (shortened_links db)"
  by (simp add: select_by_code_def)

text \<open>Under the UNIQUE constraint on \<^verbatim>\<open>short_code\<close> a query by code is a \<open>find\<close>.\<close>

lemma select_by_code_find:
  assumes "distinct (map short_code (shortened_links db))"
  shows "select_by_code db code =
           (case find (\<lambda>r. short_code r = code) (shortened_links db) of
              None \<Rightarrow> [] | Some link \<Rightarrow> [link])"
proof -
  have "distinct (map short_code xs) \<Longrightarrow>
        filter (\<lambda>r. short_code r = code) xs =
          (case find (\<lambda>r. short_code r = code) xs of None \<Rightarrow> [] | Some link \<Rightarrow> [link])" for xs
  proof (induction xs)
    case Nil
    then show ?case by simp
  next
    case (Cons x xs)
    show ?case
    proof (cases "short_code x = code")
      case True
      with Cons.prems have "code \<notin> short_code ` set xs" by auto
      then have "filter (\<lambda>r. short_code r = code) xs = []"
        by (auto simp: filter_empty_conv)
      with True show ?thesis by simp
    next
      case False
      with Cons show ?thesis by simp
    qed
  qed
  with assms show ?thesis by (simp add: select_by_code_def)
qed

text \<open>An update that leaves the code of every row alone commutes with a query by code.\<close>

lemma select_by_code_update_keeps_code:
  assumes "\<And>r. short_code (f r) = short_code r"
  shows "select_by_code (update_where_id i f db) code =
           map (\<lambda>r. if id_link r = i then f r else r) (select_by_code db code)"
proof -
  have "filter (\<lambda>r. short_code r = code) (map (\<lambda>r. if id_link r = i then f r else r) xs) =
        map (\<lambda>r. if id_link r = i then f r else r) (filter (\<lambda>r. short_code r = code) xs)" for xs
    by (induction xs) (auto simp: assms)
  then show ?thesis
    by (simp add: select_by_code_def update_where_id_def)
qed

lemma update_where_id_preserved:
  assumes "\<And>r. preserved_fields (f r) = preserved_fields r"
  shows "map preserved_fields (shortened_links (update_where_id i f db))
           = map preserved_fields (shortened_links db)"
  by (simp add: update_where_id_def assms)

lemma get_current_user_users:
  "users db = users db' \<Longrightarrow>
   get_current_user decode creds db = get_current_user decode creds db'"
  by (simp add: get_current_user_def select_user_by_id_def split: option.splits sum.splits)

subsection \<open>No stored usage time lies in the future\<close>

text \<open>
  Every handler keeps \<open>used_by t\<close> when the clock readings it takes are not after \<open>t\<close>, so
  the property holds, at the current clock, after every history.
\<close>

lemma used_by_mono: "used_by t db \<Longrightarrow> t \<le> t' \<Longrightarrow> used_by t' db"
  by (auto simp: used_by_def list_all_iff split: option.splits)

lemma used_by_register:
  "used_by t db \<Longrightarrow> used_by t (snd (register hash_password new_id data db))"
  by (simp add: register_def used_by_def Let_def)

lemma used_by_shorten:
  "used_by t db \<Longrightarrow> used_by t (snd (shorten_link decode rnd now new_id request_data request db))"
  by (auto simp: shorten_link_def used_by_def Let_def split: sum.splits option.splits)

lemma used_by_redirect:
  "used_by t db \<Longrightarrow> now' \<le> t \<Longrightarrow>
   used_by t (snd (redirect_to_original_url max_integer now now' code db))"
  by (auto simp: redirect_to_original_url_def used_by_def update_where_id_def list_all_iff
      split: sum.splits option.splits)

lemma used_by_lookup: "used_by t db \<Longrightarrow> used_by t (snd (get_original_url code db))"
  by (auto simp: get_original_url_def split: sum.splits option.splits)

lemma used_by_stats: "used_by t db \<Longrightarrow> used_by t (snd (get_link_stats decode code request db))"
  by (auto simp: get_link_stats_def split: sum.splits option.splits)

lemma used_by_my_links: "used_by t db \<Longrightarrow> used_by t (snd (get_my_links decode request db))"
  by (auto simp: get_my_links_def split: sum.splits option.splits)

lemma used_by_delete:
  "used_by t db \<Longrightarrow> used_by t (snd (delete_short_link decode code request db))"
  by (auto simp: delete_short_link_def delete_where_id_def used_by_def list_all_iff
      split: sum.splits option.splits)

lemma used_by_update:
  "used_by t db \<Longrightarrow> used_by t (snd (update_short_link decode code url request db))"
  by (auto simp: update_short_link_def update_where_id_def used_by_def list_all_iff
      split: sum.splits option.splits)

lemma used_by_cleanup:
  "used_by t db \<Longrightarrow> used_by t (snd (cleanup_cycle globals now db))"
  by (auto simp: cleanup_cycle_def delete_where_last_used_before_def used_by_def list_all_iff
      split: sum.splits option.splits)

lemma used_by_serve:
  assumes "used_by (world_clock w) (world_db w)"
  shows "used_by (world_clock (serve decode max_integer w c))
           (world_db (serve decode max_integer w c))"
proof (cases c)
  case (CallShorten d rnd new_id request_data request)
  have "used_by (world_clock w + int d) (world_db w)"
    using assms by (rule used_by_mono) simp
  then show ?thesis
    using CallShorten by (simp add: used_by_shorten)
next
  case (CallRedirect d d' code)
  have "used_by (world_clock w + int d + int d') (world_db w)"
    using assms by (rule used_by_mono) simp
  then show ?thesis
    using CallRedirect by (simp add: used_by_redirect)
next
  case (CallSweep d)
  have "used_by (world_clock w + int d) (world_db w)"
    using assms by (rule used_by_mono) simp
  then show ?thesis
    using CallSweep by (simp add: used_by_cleanup)
qed (use assms in \<open>simp_all add: used_by_register used_by_lookup used_by_stats used_by_my_links used_by_delete
      used_by_update\<close>)

lemma used_by_foldl_serve:
  "used_by (world_clock w) (world_db w) \<Longrightarrow>
   used_by (world_clock (foldl (serve decode max_integer) w calls))
     (world_db (foldl (serve decode max_integer) w calls))"
  by (induction calls arbitrary: w) (simp_all add: used_by_serve)

lemma used_by_history:
  "used_by (world_clock (history decode max_integer registered t0 calls))
     (world_db (history decode max_integer registered t0 calls))"
  unfolding history_def by (rule used_by_foldl_serve) (simp add: used_by_def)

subsection \<open>Resolution\<close>

text \<open>
  At the bound of the column the resolution of a stored, unexpired link fails: the
  commit raises, nothing is redirected and the database is as it was.
\<close>

lemma redirect_at_bound_raises:
  assumes "select_by_code db code = [link]"
    and "\<not> is_expired link now"
    and "max_integer \<le> click_count link"
  shows "redirect_to_original_url max_integer now now' code db = (Inl IntegerOutOfRange, db)"
  using assms by (simp add: redirect_to_original_url_def scalar_one_or_none_def)

lemma redirect_at_bound_sample:
  "redirect_to_original_url sample_max_integer 3000 3001 ''busy'' sample_db_full
     = (Inl IntegerOutOfRange, sample_db_full)"
  by code_simp

text \<open>
  C2. After any history of requests, resolving the code of a stored link that is not
  expired and whose \<^verbatim>\<open>click_count\<close> is below the bound of its column succeeds: it
  answers with a redirect to the link's \<^verbatim>\<open>original_url\<close> and leaves, under that code,
  the same row with \<^verbatim>\<open>click_count\<close> one higher and \<^verbatim>\<open>last_used_at\<close> equal to the
  clock reading \<open>now'\<close> taken for it; that reading is not before the value
  \<^verbatim>\<open>last_used_at\<close> had.
\<close>

theorem redirect_active_records_visit:
  assumes "w = history decode max_integer registered t0 calls"
    and "now = world_clock w + int d"
    and "now' = now + int d'"
    and "select_by_code (world_db w) code = [link]"
    and "\<not> is_expired link now"
    and "click_count link < max_integer"
  shows "fst (redirect_to_original_url max_integer now now' code (world_db w))
           = Inr (RedirectResponse (original_url link))
         \<and> select_by_code
             (snd (redirect_to_original_url max_integer now now' code (world_db w))) code =
             [link\<lparr>click_count := click_count link + 1, last_used_at := Some now'\<rparr>]
         \<and> (case last_used_at link of None \<Rightarrow> True | Some t \<Rightarrow> t \<le> now')"
proof -
  let ?upd = "\<lambda>r. r\<lparr>click_count := click_count link + 1, last_used_at := Some now'\<rparr>"
  have res: "redirect_to_original_url max_integer now now' code (world_db w) =
      (Inr (RedirectResponse (original_url link)), update_where_id (id_link link) ?upd (world_db w))"
    using assms(4,5,6) by (simp add: redirect_to_original_url_def scalar_one_or_none_def)
  have "select_by_code (update_where_id (id_link link) ?upd (world_db w)) code
        = map (\<lambda>r. if id_link r = id_link link then ?upd r else r)
            (select_by_code (world_db w) code)"
    by (rule select_by_code_update_keeps_code) simp
  then have sel: "select_by_code (update_where_id (id_link link) ?upd (world_db w)) code
        = [?upd link]"
    using assms(4) by simp
  have "link \<in> set (shortened_links (world_db w))"
    using assms(4) select_by_code_subset [of link "world_db w" code] by simp
  moreover have "used_by (world_clock w) (world_db w)"
    unfolding assms(1) by (rule used_by_history)
  ultimately have "case last_used_at link of None \<Rightarrow> True | Some t \<Rightarrow> t \<le> world_clock w"
    by (simp add: used_by_def list_all_iff)
  then have "case last_used_at link of None \<Rightarrow> True | Some t \<Rightarrow> t \<le> now'"
    using assms(2,3) by (auto split: option.splits)
  with res sel show ?thesis by simp
qed

theorem redirect_active_records_visit_witness:
  "fst (redirect_to_original_url sample_max_integer 1020 1022 ''abc''
          (world_db (history sample_decode sample_max_integer [alice, bob] 1000 sample_calls)))
     = Inr (RedirectResponse (original_url link_used))
   \<and> select_by_code (snd (redirect_to_original_url sample_max_integer 1020 1022 ''abc''
          (world_db (history sample_decode sample_max_integer [alice, bob] 1000 sample_calls))))
        ''abc''
     = [link_used\<lparr>click_count := click_count link_used + 1, last_used_at := Some 1022\<rparr>]
   \<and> (case last_used_at link_used of None \<Rightarrow> True | Some t \<Rightarrow> t \<le> 1022)
   \<and> click_count link_used = 1
   \<and> last_used_at link_used = Some 1016
   \<and> expires_at link_used = Some 5000"
proof -
  let ?w = "history sample_decode sample_max_integer [alice, bob] 1000 sample_calls"
  have c: "1020 = world_clock ?w + int 4" by code_simp
  have c': "(1022::int) = 1020 + int 2" by simp
  have s: "select_by_code (world_db ?w) ''abc'' = [link_used]" by code_simp
  have e: "\<not> is_expired link_used 1020" by code_simp
  have b: "click_count link_used < sample_max_integer" by code_simp
  have f: "click_count link_used = 1 \<and> last_used_at link_used = Some 1016
            \<and> expires_at link_used = Some 5000"
    by (simp add: link_used_def)
  from redirect_active_records_visit [OF refl c c' s e b] f
  show ?thesis by blast
qed

text \<open>
  C3. Resolving the code of a stored link whose \<^verbatim>\<open>expires_at\<close> is set and before the
  clock reading fails with 410 \<^verbatim>\<open>Link has expired\<close> and returns the database as it
  was: the link is still stored, with every field unchanged.
\<close>

theorem redirect_expired_is_gone:
  assumes "select_by_code db code = [link]"
    and "expires_at link = Some e"
    and "e < now"
  shows "redirect_to_original_url max_integer now now' code db =
           (Inl (HTTPException 410 ''Link has expired''), db)
         \<and> link \<in> set (shortened_links (snd (redirect_to_original_url max_integer now now' code db)))
         \<and> select_by_code (snd (redirect_to_original_url max_integer now now' code db)) code = [link]"
proof -
  have res: "redirect_to_original_url max_integer now now' code db =
           (Inl (HTTPException 410 ''Link has expired''), db)"
    using assms by (simp add: redirect_to_original_url_def scalar_one_or_none_def is_expired_def)
  have "link \<in> set (select_by_code db code)"
    using assms(1) by simp
  then have "link \<in> set (shortened_links db)"
    by (rule select_by_code_subset)
  with res assms(1) show ?thesis by simp
qed

theorem redirect_expired_is_gone_witness:
  "redirect_to_original_url sample_max_integer 3000 3001 ''abc'' sample_db =
     (Inl (HTTPException 410 ''Link has expired''), sample_db)
   \<and> link_abc \<in> set (shortened_links (snd (redirect_to_original_url sample_max_integer 3000 3001 ''abc'' sample_db)))
   \<and> select_by_code (snd (redirect_to_original_url sample_max_integer 3000 3001 ''abc'' sample_db)) ''abc''
       = [link_abc]"
proof -
  have a: "select_by_code sample_db ''abc'' = [link_abc]" by code_simp
  have b: "expires_at link_abc = Some 2000" by code_simp
  have c: "(2000::int) < 3000" by simp
  show ?thesis
    by (rule redirect_expired_is_gone [OF a b c])
qed

text \<open>
  C4. Resolving a code that no stored link carries fails with 404
  \<^verbatim>\<open>Short URL not found\<close>, whatever the clock reads, and so never with the 410 of an
  expired link; the database is returned as it was.
\<close>

theorem redirect_absent_is_not_found:
  assumes "code \<notin> short_code ` set (shortened_links db)"
  shows "redirect_to_original_url max_integer now now' code db =
           (Inl (HTTPException 404 ''Short URL not found''), db)
         \<and> fst (redirect_to_original_url max_integer now now' code db)
             \<noteq> Inl (HTTPException 410 ''Link has expired'')"
proof -
  from assms have "select_by_code db code = []"
    by (simp add: select_by_code_empty_iff)
  then show ?thesis
    by (simp add: redirect_to_original_url_def scalar_one_or_none_def)
qed

theorem redirect_absent_is_not_found_witness:
  "redirect_to_original_url sample_max_integer 3000 3001 ''nope'' sample_db =
     (Inl (HTTPException 404 ''Short URL not found''), sample_db)
   \<and> fst (redirect_to_original_url sample_max_integer 3000 3001 ''nope'' sample_db)
       \<noteq> Inl (HTTPException 410 ''Link has expired'')"
proof -
  have a: "''nope'' \<notin> short_code ` set (shortened_links sample_db)" by code_simp
  show ?thesis
    by (rule redirect_absent_is_not_found [OF a])
qed

text \<open>
  C9. The lookup returns the database as it was and never fails with 410. For a code no
  stored link carries it fails with 404; for a code exactly one stored link carries it
  answers with that link's \<^verbatim>\<open>original_url\<close>, whatever its \<^verbatim>\<open>expires_at\<close>. When the
  codes of the stored links are pairwise different, as the UNIQUE constraint has it, these
  are the only two outcomes.
\<close>

theorem get_original_url_two_outcomes:
  "snd (get_original_url code db) = db
   \<and> (\<forall>detail. fst (get_original_url code db) \<noteq> Inl (HTTPException 410 detail))
   \<and> (code \<notin> short_code ` set (shortened_links db) \<longrightarrow>
        fst (get_original_url code db) = Inl (HTTPException 404 ''Short URL not found''))
   \<and> (\<forall>link. select_by_code db code = [link] \<longrightarrow>
        fst (get_original_url code db) = Inr (OriginalUrlResponse (original_url link)))
   \<and> (distinct (map short_code (shortened_links db)) \<longrightarrow>
        fst (get_original_url code db) =
          (case find (\<lambda>r. short_code r = code) (shortened_links db) of
             None \<Rightarrow> Inl (HTTPException 404 ''Short URL not found'')
           | Some link \<Rightarrow> Inr (OriginalUrlResponse (original_url link))))"
proof -
  have a: "snd (get_original_url code db) = db"
    by (simp add: get_original_url_def split: sum.splits option.splits)
  have b: "fst (get_original_url code db) \<noteq> Inl (HTTPException 410 detail)" for detail
    by (auto simp: get_original_url_def scalar_one_or_none_def
        split: sum.splits option.splits list.splits)
  have c: "fst (get_original_url code db) = Inl (HTTPException 404 ''Short URL not found'')"
    if "code \<notin> short_code ` set (shortened_links db)"
  proof -
    from that have "select_by_code db code = []" by (simp add: select_by_code_empty_iff)
    then show ?thesis by (simp add: get_original_url_def scalar_one_or_none_def)
  qed
  have d: "fst (get_original_url code db) = Inr (OriginalUrlResponse (original_url link))"
    if "select_by_code db code = [link]" for link
    using that by (simp add: get_original_url_def scalar_one_or_none_def)
  have e: "fst (get_original_url code db) =
          (case find (\<lambda>r. short_code r = code) (shortened_links db) of
             None \<Rightarrow> Inl (HTTPException 404 ''Short URL not found'')
           | Some link \<Rightarrow> Inr (OriginalUrlResponse (original_url link)))"
    if "distinct (map short_code (shortened_links db))"
    using select_by_code_find [OF that, of code]
    by (simp add: get_original_url_def scalar_one_or_none_def split: option.splits)
  from a b c d e show ?thesis by blast
qed

theorem get_original_url_two_outcomes_witness:
  "get_original_url ''abc'' sample_db
     = (Inr (OriginalUrlResponse ''https://example.com''), sample_db)
   \<and> is_expired link_abc 3000
   \<and> get_original_url ''nope'' sample_db
       = (Inl (HTTPException 404 ''Short URL not found''), sample_db)"
proof -
  have a: "select_by_code sample_db ''abc'' = [link_abc]" by code_simp
  have b: "''nope'' \<notin> short_code ` set (shortened_links sample_db)" by code_simp
  have c: "original_url link_abc = ''https://example.com''" by code_simp
  have d: "is_expired link_abc 3000" by code_simp
  from get_original_url_two_outcomes [of "''abc''" sample_db] a c
  have "get_original_url ''abc'' sample_db
     = (Inr (OriginalUrlResponse ''https://example.com''), sample_db)"
    by (simp add: prod_eq_iff)
  moreover from get_original_url_two_outcomes [of "''nope''" sample_db] b
  have "get_original_url ''nope'' sample_db
       = (Inl (HTTPException 404 ''Short URL not found''), sample_db)"
    by (simp add: prod_eq_iff)
  ultimately show ?thesis using d by simp
qed

subsection \<open>Creation\<close>

lemma alphabet_62: "length (ascii_letters @ digits) = 62" "distinct (ascii_letters @ digits)"
  by (simp_all add: ascii_letters_def ascii_lowercase_def ascii_uppercase_def digits_def)

lemma generate_short_code_length: "length (generate_short_code rnd k) = k"
  by (simp add: generate_short_code_def choices_def)

lemma generate_short_code_alphabet:
  assumes "\<forall>i<k. rnd i < 62"
  shows "set (generate_short_code rnd k) \<subseteq> set (ascii_letters @ digits)"
proof
  fix c assume "c \<in> set (generate_short_code rnd k)"
  then obtain i where "i < k" and c: "c = (ascii_letters @ digits) ! rnd i"
    by (auto simp: generate_short_code_def choices_def)
  with assms have "rnd i < 62" by simp
  then have "rnd i < length (ascii_letters @ digits)"
    by (simp only: alphabet_62(1))
  with c show "c \<in> set (ascii_letters @ digits)"
    using nth_mem by blast
qed

text \<open>
  C7. When a creation request carries no custom alias (none, or the empty string) and
  succeeds, the code in the returned short URL and in the stored row is the generated
  one: it has length 6 and each of its characters is an upper-case letter, a lower-case
  letter or a digit, an alphabet of 62 symbols. The draws of the random generator are
  indices into that alphabet.
\<close>

theorem shorten_link_generated_code:
  assumes "custom_alias request_data = None \<or> custom_alias request_data = Some []"
    and "\<forall>i<6. rnd i < 62"
    and "shorten_link decode rnd now new_id request_data request db = (Inr resp, db')"
  shows "length (generate_short_code rnd 6) = 6
         \<and> set (generate_short_code rnd 6)
             \<subseteq> set ascii_uppercase \<union> set ascii_lowercase \<union> set digits
         \<and> card (set ascii_uppercase \<union> set ascii_lowercase \<union> set digits) = 62
         \<and> (\<exists>created_by.
               resp = ShortenResponse (base_url request @ generate_short_code rnd 6) created_by)
         \<and> map short_code (shortened_links db')
             = map short_code (shortened_links db) @ [generate_short_code rnd 6]"
proof -
  let ?code = "generate_short_code rnd 6"
  have code: "choose_short_code rnd request_data = ?code"
    using assms(1) by (auto simp: choose_short_code_def)
  have len: "length ?code = 6" by (rule generate_short_code_length)
  have "set ?code \<subseteq> set (ascii_letters @ digits)"
    using assms(2) by (rule generate_short_code_alphabet)
  then have sub: "set ?code \<subseteq> set ascii_uppercase \<union> set ascii_lowercase \<union> set digits"
    by (auto simp: ascii_letters_def)
  have "set ascii_uppercase \<union> set ascii_lowercase \<union> set digits = set (ascii_letters @ digits)"
    by (auto simp: ascii_letters_def)
  then have card: "card (set ascii_uppercase \<union> set ascii_lowercase \<union> set digits) = 62"
    using alphabet_62 by (simp only: distinct_card)
  from assms(3) code have
    "(\<exists>created_by. resp = ShortenResponse (base_url request @ ?code) created_by)
     \<and> map short_code (shortened_links db') = map short_code (shortened_links db) @ [?code]"
    by (auto simp: shorten_link_def Let_def split: sum.splits option.splits)
  with len sub card show ?thesis by blast
qed

theorem shorten_link_generated_code_witness:
  "length (generate_short_code zero_draws 6) = 6
   \<and> set (generate_short_code zero_draws 6)
       \<subseteq> set ascii_uppercase \<union> set ascii_lowercase \<union> set digits
   \<and> card (set ascii_uppercase \<union> set ascii_lowercase \<union> set digits) = 62
   \<and> (\<exists>created_by.
         ShortenResponse ''http://short.test/aaaaaa'' ''alice''
           = ShortenResponse (base_url alice_request @ generate_short_code zero_draws 6) created_by)
   \<and> map short_code (shortened_links sample_db_created)
       = map short_code (shortened_links sample_db_old) @ [generate_short_code zero_draws 6]"
proof -
  have a: "custom_alias plain_request = None \<or> custom_alias plain_request = Some []"
    by (simp add: plain_request_def)
  have b: "\<forall>i<6. zero_draws i < 62"
    by (simp add: zero_draws_def)
  have c: "shorten_link sample_decode zero_draws 5000 4 plain_request alice_request
             sample_db_old
           = (Inr (ShortenResponse ''http://short.test/aaaaaa'' ''alice''), sample_db_created)"
    by code_simp
  show ?thesis
    using shorten_link_generated_code [OF a b c] by simp
qed

text \<open>
  C5, as the code has it. When the code chosen for a creation request, be it the
  caller's custom alias or a generated one, is already carried by a stored link, the
  request fails and the database is returned as it was; the failure is 400
  \<^verbatim>\<open>Alias is already taken\<close> unless resolving the caller has already raised. Nothing is
  generated again and nothing is retried.
\<close>

theorem shorten_link_collision_rejected:
  assumes "choose_short_code rnd request_data \<in> short_code ` set (shortened_links db)"
  shows "snd (shorten_link decode rnd now new_id request_data request db) = db
         \<and> fst (shorten_link decode rnd now new_id request_data request db) =
             (case get_current_user_optional decode request db of
                Inl e \<Rightarrow> Inl e
              | Inr current_user \<Rightarrow> Inl (HTTPException 400 ''Alias is already taken''))"
proof -
  from assms have "select_by_code db (choose_short_code rnd request_data) \<noteq> []"
    by (simp add: select_by_code_empty_iff)
  then obtain r where "scalar (select_by_code db (choose_short_code rnd request_data)) = Some r"
    by (cases "select_by_code db (choose_short_code rnd request_data)") (auto simp: scalar_def)
  then show ?thesis
    by (simp add: shorten_link_def Let_def split: sum.splits)
qed

theorem shorten_link_collision_rejected_witness:
  "snd (shorten_link sample_decode zero_draws 5000 4 alias_request alice_request sample_db)
     = sample_db
   \<and> fst (shorten_link sample_decode zero_draws 5000 4 alias_request alice_request sample_db)
       = Inl (HTTPException 400 ''Alias is already taken'')"
proof -
  have a: "choose_short_code zero_draws alias_request
             \<in> short_code ` set (shortened_links sample_db)"
    by code_simp
  have b: "get_current_user_optional sample_decode alice_request sample_db = Inr (Some alice)"
    by code_simp
  show ?thesis
    using shorten_link_collision_rejected [OF a, of sample_decode 5000 4 alice_request] b
    by simp
qed

text \<open>
  C5, as stated, fails: a request without a custom alias whose generated code
  \<^verbatim>\<open>aaaaaa\<close> is already stored is answered with 400 \<^verbatim>\<open>Alias is already taken\<close>.
\<close>

theorem generated_collision_counterexample:
  "custom_alias plain_request = None
   \<and> generate_short_code zero_draws 6 = short_code link_gen
   \<and> link_gen \<in> set (shortened_links sample_db)
   \<and> shorten_link sample_decode zero_draws 5000 4 plain_request anonymous_request sample_db
       = (Inl (HTTPException 400 ''Alias is already taken''), sample_db)"
  by code_simp

subsection \<open>Retention sweeper\<close>

text \<open>
  The name the cycle reads is bound nowhere in the module, so every cycle raises before
  it deletes anything, and the first cycle ends the task.
\<close>

lemma cleanup_cycle_raises:
  "cleanup_cycle module_globals now db = (Inl (NameError ''N_DAYS_INACTIVE''), db)"
  by (simp add: cleanup_cycle_def load_global_def module_globals_def)

lemma cleanup_task_stops:
  "cleanup_old_links_task module_globals (now # wakeups) db
     = (Some (NameError ''N_DAYS_INACTIVE''), db)"
  by (simp add: cleanup_cycle_raises)

text \<open>
  Were the name bound to the 7 of \<^verbatim>\<open>INACTIVITY_DAYS_LIMIT\<close>, a cycle would keep exactly
  the links never used or used no earlier than seven days before \<open>now\<close>.
\<close>

lemma cleanup_cycle_with_bound_name:
  "cleanup_cycle ((''N_DAYS_INACTIVE'', 7) # module_globals) now db =
     (Inr (), db\<lparr>shortened_links :=
        filter (\<lambda>r. case last_used_at r of None \<Rightarrow> True
                  | Some t \<Rightarrow> \<not> t < now - timedelta_days 7) (shortened_links db)\<rparr>)"
  by (simp add: cleanup_cycle_def load_global_def delete_where_last_used_before_def)

text \<open>
  C6, on the code: a sweeper cycle at a time eight days after \<open>link_old\<close> was last used
  raises \<^verbatim>\<open>NameError\<close> for \<^verbatim>\<open>N_DAYS_INACTIVE\<close> and leaves the database as it was, the
  stale link included.
\<close>

theorem sweeper_cycle_keeps_stale_link:
  "last_used_at link_old = Some (1691200000000 - timedelta_days 8)
   \<and> link_old \<in> set (shortened_links sample_db)
   \<and> cleanup_cycle module_globals 1691200000000 sample_db
       = (Inl (NameError ''N_DAYS_INACTIVE''), sample_db)
   \<and> link_old \<in> set (shortened_links (snd (cleanup_cycle module_globals 1691200000000 sample_db)))"
  by code_simp

subsection \<open>Frame of the usage fields\<close>

lemma get_original_url_db: "snd (get_original_url code db) = db"
  by (simp add: get_original_url_def split: sum.splits option.splits)

lemma get_link_stats_db: "snd (get_link_stats decode code request db) = db"
  by (simp add: get_link_stats_def split: sum.splits option.splits)

lemma get_my_links_db: "snd (get_my_links decode request db) = db"
  by (simp add: get_my_links_def split: sum.splits option.splits)

lemma update_short_link_preserved:
  "map preserved_fields (shortened_links (snd (update_short_link decode code url request db)))
     = map preserved_fields (shortened_links db)"
proof -
  have "map preserved_fields (shortened_links
          (update_where_id i (\<lambda>r. r\<lparr>original_url := url\<rparr>) db))
        = map preserved_fields (shortened_links db)" for i
    by (rule update_where_id_preserved) (simp add: preserved_fields_def)
  then show ?thesis
    by (simp add: update_short_link_def split: sum.splits option.splits)
qed

lemma update_short_link_owner:
  assumes "get_current_user decode (security request) db = Inr owner"
    and "select_by_code db code = [link]"
    and "user_id link = Some (id_user owner)"
  shows "select_by_code (snd (update_short_link decode code url request db)) code
           = [link\<lparr>original_url := url\<rparr>]"
proof -
  have "snd (update_short_link decode code url request db)
        = update_where_id (id_link link) (\<lambda>r. r\<lparr>original_url := url\<rparr>) db"
    using assms
    by (simp add: update_short_link_def scalar_one_or_none_def)
  moreover have "select_by_code (update_where_id (id_link link) (\<lambda>r. r\<lparr>original_url := url\<rparr>) db) code
      = map (\<lambda>r. if id_link r = id_link link then r\<lparr>original_url := url\<rparr> else r)
          (select_by_code db code)"
    by (rule select_by_code_update_keeps_code) simp
  ultimately show ?thesis
    using assms(2) by simp
qed

lemma shorten_link_prefix:
  "take (length (shortened_links db))
     (shortened_links (snd (shorten_link decode rnd now new_id request_data request db)))
   = shortened_links db"
  by (simp add: shorten_link_def Let_def split: sum.splits option.splits)

lemma delete_short_link_subset:
  "set (shortened_links (snd (delete_short_link decode code request db)))
     \<subseteq> set (shortened_links db)"
  by (auto simp: delete_short_link_def delete_where_id_def split: sum.splits option.splits)

lemma redirect_failure_db:
  "fst (redirect_to_original_url max_integer now now' code db) = Inl e \<Longrightarrow>
   snd (redirect_to_original_url max_integer now now' code db) = db"
  by (auto simp: redirect_to_original_url_def split: sum.splits option.splits if_splits)

text \<open>
  C8. Lookup, stats and list-mine return the database as it was. An update leaves the
  rows of the link table in place and equal in every column but \<^verbatim>\<open>original_url\<close>
  (so \<^verbatim>\<open>id\<close>, \<^verbatim>\<open>short_code\<close>, \<^verbatim>\<open>created_at\<close>, \<^verbatim>\<open>expires_at\<close>, \<^verbatim>\<open>click_count\<close>,
  \<^verbatim>\<open>last_used_at\<close> and \<^verbatim>\<open>user_id\<close> are preserved), and an update by the owner leaves
  the link with the new \<^verbatim>\<open>original_url\<close>. A creation keeps every row there was and
  only appends; a deletion leaves only rows that were there, unchanged; a resolution that
  fails returns the database as it was.
\<close>

theorem usage_fields_frame:
  "snd (get_original_url code db) = db
   \<and> snd (get_link_stats decode code request db) = db
   \<and> snd (get_my_links decode request db) = db
   \<and> map preserved_fields
         (shortened_links (snd (update_short_link decode code new_original_url request db)))
       = map preserved_fields (shortened_links db)
   \<and> (\<forall>owner link.
          get_current_user decode (security request) db = Inr owner
          \<and> select_by_code db code = [link] \<and> user_id link = Some (id_user owner) \<longrightarrow>
          select_by_code (snd (update_short_link decode code new_original_url request db)) code
            = [link\<lparr>original_url := new_original_url\<rparr>])
   \<and> take (length (shortened_links db))
         (shortened_links (snd (shorten_link decode rnd now new_id request_data request db)))
       = shortened_links db
   \<and> set (shortened_links (snd (delete_short_link decode code request db)))
       \<subseteq> set (shortened_links db)
   \<and> (\<forall>e. fst (redirect_to_original_url max_integer now now' code db) = Inl e \<longrightarrow>
          snd (redirect_to_original_url max_integer now now' code db) = db)"
  by (simp add: get_original_url_db get_link_stats_db get_my_links_db
      update_short_link_preserved update_short_link_owner shorten_link_prefix
      delete_short_link_subset redirect_failure_db)

theorem usage_fields_frame_witness:
  "snd (get_original_url ''abc'' sample_db) = sample_db
   \<and> snd (get_link_stats sample_decode ''abc'' alice_request sample_db) = sample_db
   \<and> snd (get_my_links sample_decode alice_request sample_db) = sample_db
   \<and> map preserved_fields
         (shortened_links (snd (update_short_link sample_decode ''abc'' ''https://new.example''
            alice_request sample_db)))
       = map preserved_fields (shortened_links sample_db)
   \<and> select_by_code (snd (update_short_link sample_decode ''abc'' ''https://new.example''
         alice_request sample_db)) ''abc''
       = [link_abc\<lparr>original_url := ''https://new.example''\<rparr>]
   \<and> take (length (shortened_links sample_db))
         (shortened_links (snd (shorten_link sample_decode zero_draws 3000 4 alias_request
            alice_request sample_db)))
       = shortened_links sample_db
   \<and> set (shortened_links (snd (delete_short_link sample_decode ''abc'' alice_request sample_db)))
       \<subseteq> set (shortened_links sample_db)
   \<and> snd (redirect_to_original_url sample_max_integer 3000 3001 ''abc'' sample_db) = sample_db"
proof -
  have a: "get_current_user sample_decode (security alice_request) sample_db = Inr alice"
    by code_simp
  have b: "select_by_code sample_db ''abc'' = [link_abc]"
    by code_simp
  have c: "user_id link_abc = Some (id_user alice)"
    by code_simp
  have d: "fst (redirect_to_original_url sample_max_integer 3000 3001 ''abc'' sample_db)
             = Inl (HTTPException 410 ''Link has expired'')"
    by code_simp
  show ?thesis
    using usage_fields_frame [of "''abc''" sample_db sample_decode alice_request
        "''https://new.example''" zero_draws 3000 4 alias_request sample_max_integer 3001] a b c d
    by simp
qed

subsection \<open>Ownership guard\<close>

text \<open>
  C1. Take two databases with the same users, one where no link carries the code and one
  where a link does that the caller does not own (it belongs to another user or to
  nobody). Stats, delete and update answer any caller with the same result on both and
  change neither; a caller who authenticates is answered 403 \<^verbatim>\<open>Access denied\<close>.
\<close>

theorem owner_ops_denial_hides_existence:
  assumes "users db = users db'"
    and "code \<notin> short_code ` set (shortened_links db)"
    and "select_by_code db' code = [link]"
    and "\<forall>u. get_current_user decode (security request) db' = Inr u \<longrightarrow>
           user_id link \<noteq> Some (id_user u)"
  shows "get_link_stats decode code request db = (fst (get_link_stats decode code request db'), db)
       \<and> snd (get_link_stats decode code request db') = db'
       \<and> delete_short_link decode code request db
           = (fst (delete_short_link decode code request db'), db)
       \<and> snd (delete_short_link decode code request db') = db'
       \<and> update_short_link decode code new_original_url request db
           = (fst (update_short_link decode code new_original_url request db'), db)
       \<and> snd (update_short_link decode code new_original_url request db') = db'
       \<and> (\<forall>u. get_current_user decode (security request) db' = Inr u \<longrightarrow>
             fst (get_link_stats decode code request db')
               = Inl (HTTPException 403 ''Access denied'')
           \<and> fst (delete_short_link decode code request db')
               = Inl (HTTPException 403 ''Access denied'')
           \<and> fst (update_short_link decode code new_original_url request db')
               = Inl (HTTPException 403 ''Access denied''))"
proof -
  have absent: "select_by_code db code = []"
    using assms(2) by (simp add: select_by_code_empty_iff)
  have same: "get_current_user decode (security request) db
                = get_current_user decode (security request) db'"
    using assms(1) by (rule get_current_user_users)
  show ?thesis
  proof (cases "get_current_user decode (security request) db'")
    case (Inl e)
    with same show ?thesis
      by (simp add: get_link_stats_def delete_short_link_def update_short_link_def)
  next
    case (Inr u)
    with assms(4) have "user_id link \<noteq> Some (id_user u)" by simp
    with Inr same absent assms(3) show ?thesis
      by (simp add: get_link_stats_def delete_short_link_def update_short_link_def
          scalar_one_or_none_def)
  qed
qed

theorem owner_ops_denial_hides_existence_witness:
  "get_link_stats sample_decode ''abc'' bob_request sample_db_without_abc
     = (fst (get_link_stats sample_decode ''abc'' bob_request sample_db), sample_db_without_abc)
   \<and> delete_short_link sample_decode ''abc'' bob_request sample_db_without_abc
       = (fst (delete_short_link sample_decode ''abc'' bob_request sample_db), sample_db_without_abc)
   \<and> update_short_link sample_decode ''abc'' ''https://evil.example'' bob_request
         sample_db_without_abc
       = (fst (update_short_link sample_decode ''abc'' ''https://evil.example'' bob_request
            sample_db), sample_db_without_abc)
   \<and> get_link_stats sample_decode ''abc'' bob_request sample_db
       = (Inl (HTTPException 403 ''Access denied''), sample_db)"
proof -
  have a: "users sample_db_without_abc = users sample_db"
    by code_simp
  have b: "''abc'' \<notin> short_code ` set (shortened_links sample_db_without_abc)"
    by code_simp
  have c: "select_by_code sample_db ''abc'' = [link_abc]"
    by code_simp
  have u: "get_current_user sample_decode (security bob_request) sample_db = Inr bob"
    by code_simp
  have "user_id link_abc \<noteq> Some (id_user bob)"
    by code_simp
  with u have d: "\<forall>u. get_current_user sample_decode (security bob_request) sample_db = Inr u
      \<longrightarrow> user_id link_abc \<noteq> Some (id_user u)"
    by simp
  show ?thesis
    using owner_ops_denial_hides_existence [OF a b c d, of "''https://evil.example''"] u
    by (simp add: prod_eq_iff)
qed

text \<open>
  C10. A request without an Authorization header gets no credentials from the bearer
  scheme, and \<^verbatim>\<open>get_current_user\<close> then raises \<^verbatim>\<open>AttributeError\<close>, as do the four
  owner-only endpoints, the database unchanged. Whenever \<^verbatim>\<open>get_current_user\<close> raises an
  HTTP error, it is a 401 and credentials were present: either their token decodes to
  nothing or to a falsy payload, or it names a user that is not stored.
\<close>

theorem missing_credentials_skip_401:
  "(authorization request = None \<longrightarrow>
      security request = None
    \<and> get_current_user decode (security request) db = Inl AttributeError
    \<and> get_link_stats decode code request db = (Inl AttributeError, db)
    \<and> get_my_links decode request db = (Inl AttributeError, db)
    \<and> update_short_link decode code new_original_url request db = (Inl AttributeError, db)
    \<and> delete_short_link decode code request db = (Inl AttributeError, db))
   \<and> (\<forall>status detail.
         get_current_user decode creds db = Inl (HTTPException status detail) \<longrightarrow>
         status = 401
         \<and> (\<exists>c. creds = Some c
              \<and> (detail = ''Invalid token''
                   \<and> (case decode (credentials c) of None \<Rightarrow> True | Some p \<Rightarrow> \<not> truthy p)
                 \<or> detail = ''User not found''
                   \<and> (\<exists>p uid. decode (credentials c) = Some p \<and> truthy p
                        \<and> int_sub p = Inr uid \<and> select_user_by_id db uid = []))))"
proof -
  have a: "security request = None
    \<and> get_current_user decode (security request) db = Inl AttributeError
    \<and> get_link_stats decode code request db = (Inl AttributeError, db)
    \<and> get_my_links decode request db = (Inl AttributeError, db)
    \<and> update_short_link decode code new_original_url request db = (Inl AttributeError, db)
    \<and> delete_short_link decode code request db = (Inl AttributeError, db)"
    if "authorization request = None"
    using that
    by (simp add: security_def get_current_user_def get_link_stats_def get_my_links_def
        update_short_link_def delete_short_link_def)
  have b: "status = 401
         \<and> (\<exists>c. creds = Some c
              \<and> (detail = ''Invalid token''
                   \<and> (case decode (credentials c) of None \<Rightarrow> True | Some p \<Rightarrow> \<not> truthy p)
                 \<or> detail = ''User not found''
                   \<and> (\<exists>p uid. decode (credentials c) = Some p \<and> truthy p
                        \<and> int_sub p = Inr uid \<and> select_user_by_id db uid = [])))"
    if "get_current_user decode creds db = Inl (HTTPException status detail)"
    for status detail
  proof (cases creds)
    case None
    with that show ?thesis by (simp add: get_current_user_def)
  next
    case (Some c)
    show ?thesis
    proof (cases "decode (credentials c)")
      case None
      with Some that show ?thesis by (simp add: get_current_user_def)
    next
      case (Some p)
      note p = this
      show ?thesis
      proof (cases "truthy p")
        case False
        with p \<open>creds = Some c\<close> that show ?thesis by (simp add: get_current_user_def)
      next
        case True
        show ?thesis
        proof (cases "int_sub p")
          case (Inl e)
          with True p \<open>creds = Some c\<close> that show ?thesis
            by (cases e) (simp_all add: get_current_user_def)
        next
          case (Inr uid)
          with True p \<open>creds = Some c\<close> that show ?thesis
            by (cases "select_user_by_id db uid"; cases "tl (select_user_by_id db uid)")
               (auto simp: get_current_user_def scalar_one_or_none_def split: list.splits)
        qed
      qed
    qed
  qed
  from a b show ?thesis by blast
qed

theorem missing_credentials_skip_401_witness:
  "security anonymous_request = None
   \<and> get_current_user sample_decode (security anonymous_request) sample_db = Inl AttributeError
   \<and> get_link_stats sample_decode ''abc'' anonymous_request sample_db
       = (Inl AttributeError, sample_db)
   \<and> get_my_links sample_decode anonymous_request sample_db = (Inl AttributeError, sample_db)
   \<and> update_short_link sample_decode ''abc'' ''https://new.example'' anonymous_request sample_db
       = (Inl AttributeError, sample_db)
   \<and> delete_short_link sample_decode ''abc'' anonymous_request sample_db
       = (Inl AttributeError, sample_db)
   \<and> get_current_user sample_decode (Some \<lparr>scheme = ''Bearer'', credentials = ''forged''\<rparr>)
         sample_db = Inl (HTTPException 401 ''Invalid token'')
   \<and> (\<exists>c. Some \<lparr>scheme = ''Bearer'', credentials = ''forged''\<rparr> = Some c
        \<and> (case sample_decode (credentials c) of None \<Rightarrow> True | Some p \<Rightarrow> \<not> truthy p))"
proof -
  note t = missing_credentials_skip_401 [of anonymous_request sample_decode sample_db "''abc''"
      "''https://new.example''" "Some \<lparr>scheme = ''Bearer'', credentials = ''forged''\<rparr>"]
  have a: "authorization anonymous_request = None"
    by code_simp
  have b: "get_current_user sample_decode (Some \<lparr>scheme = ''Bearer'', credentials = ''forged''\<rparr>)
         sample_db = Inl (HTTPException 401 ''Invalid token'')"
    by code_simp
  from t a have first: "security anonymous_request = None
   \<and> get_current_user sample_decode (security anonymous_request) sample_db = Inl AttributeError
   \<and> get_link_stats sample_decode ''abc'' anonymous_request sample_db
       = (Inl AttributeError, sample_db)
   \<and> get_my_links sample_decode anonymous_request sample_db = (Inl AttributeError, sample_db)
   \<and> update_short_link sample_decode ''abc'' ''https://new.example'' anonymous_request sample_db
       = (Inl AttributeError, sample_db)
   \<and> delete_short_link sample_decode ''abc'' anonymous_request sample_db
       = (Inl AttributeError, sample_db)"
    by blast
  from t b have "\<exists>c. Some \<lparr>scheme = ''Bearer'', credentials = ''forged''\<rparr> = Some c
        \<and> (''Invalid token'' = ''Invalid token''
              \<and> (case sample_decode (credentials c) of None \<Rightarrow> True | Some p \<Rightarrow> \<not> truthy p)
            \<or> ''Invalid token'' = ''User not found''
              \<and> (\<exists>p uid. sample_decode (credentials c) = Some p \<and> truthy p
                   \<and> int_sub p = Inr uid \<and> select_user_by_id sample_db uid = []))"
    by blast
  then have second: "\<exists>c. Some \<lparr>scheme = ''Bearer'', credentials = ''forged''\<rparr> = Some c
        \<and> (case sample_decode (credentials c) of None \<Rightarrow> True | Some p \<Rightarrow> \<not> truthy p)"
    by simp
  from first b second show ?thesis
    by blast
qed

end
